theory Spec2Isabelle
  imports Complex_Main "HOL-Library.AList"
begin

section \<open>Numbers\<close>

text \<open>
  The engine computes on Python floats. Where a property does not depend on how a
  result is rounded, they are modelled as real numbers with exact arithmetic. Two
  places depend on the rounding and are modelled on IEEE double precision: the
  statistics the inline detector takes from numpy (parameters of the detector, with a
  double-precision evaluation to instantiate them), and the arithmetic of the savings
  optimizer. There is no NaN and no infinity.
\<close>

section \<open>Financial health scorer (financial\_analyzer.py)\<close>

text \<open>The dictionary \<open>scores\<close>, with its four keys in insertion order.\<close>

record scores =
  savings_rate :: real
  debt_ratio :: real
  emergency_fund :: real
  income_stability :: real

datatype rating = EXCELLENT | GOOD | FAIR | POOR

record health_score =
  overall_score :: real
  breakdown :: scores
  rating :: rating
  recommendations :: "string list"

definition get_health_rating :: "real \<Rightarrow> rating" where
  "get_health_rating score =
     (if score \<ge> 80 then EXCELLENT
      else if score \<ge> 60 then GOOD
      else if score \<ge> 40 then FAIR
      else POOR)"

definition get_health_recommendations :: "scores \<Rightarrow> string list" where
  "get_health_recommendations s =
     (if savings_rate s < 10 then [''Increase saving rate by reducing expenses''] else [])
     @ (if debt_ratio s < 10 then [''Focus on paying down debt''] else [])
     @ (if emergency_fund s < 10
        then [''Build emergency fund with 3-6 months of expenses''] else [])"

definition compute_scores :: "real \<Rightarrow> real \<Rightarrow> real \<Rightarrow> real \<Rightarrow> scores" where
  "compute_scores net_worth monthly_income monthly_expenses debt =
     (let rate = (if monthly_income > 0
                  then (monthly_income - monthly_expenses) / monthly_income else 0);
          debt_score = max 0 (25 * (1 - min 1 debt));
          months_of_expenses = (if monthly_expenses > 0
                                then net_worth / monthly_expenses else 0);
          months_capped = min months_of_expenses 12
      in \<lparr> savings_rate = min 25 (max 0 (rate * 100 / 20)),
           debt_ratio = debt_score,
           emergency_fund = min 25 (months_capped * 25 / 6),
           income_stability = 15 \<rparr>)"

definition get_financial_health_score ::
  "real \<Rightarrow> real \<Rightarrow> real \<Rightarrow> real \<Rightarrow> health_score" where
  "get_financial_health_score net_worth monthly_income monthly_expenses debt =
     (let s = compute_scores net_worth monthly_income monthly_expenses debt;
          total_score = savings_rate s + debt_ratio s + emergency_fund s + income_stability s
      in \<lparr> overall_score = total_score,
           breakdown = s,
           rating = get_health_rating total_score,
           recommendations = get_health_recommendations s \<rparr>)"

section \<open>Statistics (numpy)\<close>

text \<open>
  \<open>np.mean\<close> and \<open>np.std\<close> (the population standard deviation, \<open>ddof = 0\<close>) of a
  sequence. Both are only called on non-empty sequences by the code modelled here.
\<close>

definition np_mean :: "real list \<Rightarrow> real" where
  "np_mean xs = sum_list xs / real (length xs)"

definition np_std :: "real list \<Rightarrow> real" where
  "np_std xs = sqrt (sum_list (map (\<lambda>x. (x - np_mean xs)\<^sup>2) xs) / real (length xs))"

section \<open>Transactions and data frames (financial\_analyzer.py)\<close>

text \<open>
  A transaction handed to the analyzer is a dictionary carrying the four keys
  \<open>date\<close>, \<open>amount\<close>, \<open>category\<close> and \<open>type\<close>. The date is modelled as already
  parsed (what \<open>pd.to_datetime\<close> yields), and the clock \<open>datetime.now()\<close> is a
  parameter of every function that reads it.
\<close>

record timestamp =
  year :: int
  month :: nat
  day :: nat

record transaction =
  tx_date :: timestamp
  tx_amount :: real
  tx_category :: string
  tx_type :: string

datatype py_error = KeyError string

text \<open>
  \<open>pd.DataFrame(transactions)\<close>: the columns are the keys of the dictionaries, so a
  frame built from the empty list has no column at all, and selecting a column that
  does not exist raises \<open>KeyError\<close>.
\<close>

record dataframe =
  columns :: "string list"
  rows :: "transaction list"

definition DataFrame :: "transaction list \<Rightarrow> dataframe" where
  "DataFrame transactions =
     \<lparr> columns = (if transactions = [] then []
                   else [''date'', ''amount'', ''category'', ''type'']),
       rows = transactions \<rparr>"

definition getitem :: "dataframe \<Rightarrow> string \<Rightarrow> py_error + unit" where
  "getitem df col = (if col \<in> set (columns df) then Inr () else Inl (KeyError col))"

section \<open>Trend classifier and inline Z-score detector (financial\_analyzer.py)\<close>

datatype trend = UP | DOWN | STABLE






section \<open>Budget performance evaluator (financial\_analyzer.py)\<close>

datatype budget_state = ON_TRACK | WARNING | OVER

record budget_status =
  budget :: real
  spent :: real
  remaining :: real
  spent_percent :: real
  status :: budget_state

definition budget_entry :: "transaction list \<Rightarrow> string \<Rightarrow> real \<Rightarrow> budget_status" where
  "budget_entry current_month category budget_amount =
     (let category_expenses =
            sum_list (map tx_amount
              (filter (\<lambda>t. tx_category t = category \<and> tx_type t = ''EXPENSE'')
                 current_month));
          percent = (if budget_amount > 0
                     then category_expenses / budget_amount * 100 else 0)
      in \<lparr> budget = budget_amount,
           spent = category_expenses,
           remaining = budget_amount - category_expenses,
           spent_percent = percent,
           status = (if percent > 100 then OVER
                     else if percent > 80 then WARNING else ON_TRACK) \<rparr>)"

text \<open>
  The budgets are a dictionary, here its items in insertion order. The first thing the
  function does with the frame is to select the column \<open>date\<close>; the later selections
  of \<open>category\<close>, \<open>type\<close> and \<open>amount\<close> are on a frame that has the column
  \<open>date\<close>, hence all four.
\<close>

definition analyze_budget_performance ::
  "transaction list \<Rightarrow> (string \<times> real) list \<Rightarrow> timestamp
     \<Rightarrow> py_error + (string \<times> budget_status) list" where
  "analyze_budget_performance transactions budgets now =
     (let df = DataFrame transactions
      in case getitem df ''date'' of
           Inl e \<Rightarrow> Inl e
         | Inr _ \<Rightarrow>
             let current_month_df =
                   filter (\<lambda>t. year (tx_date t) = year now \<and> month (tx_date t) = month now)
                     (rows df)
             in Inr (map (\<lambda>(category, budget_amount).
                            (category, budget_entry current_month_df category budget_amount))
                       budgets))"

section \<open>Rounding\<close>

text \<open>
  \<open>round(x, ndigits)\<close>: the nearest multiple of \<open>10 ^ -ndigits\<close>, a tie going to the
  even one.
\<close>

definition round_half_even :: "real \<Rightarrow> int" where
  "round_half_even y =
     (let f = \<lfloor>y\<rfloor>; d = y - of_int f
      in if d < 1 / 2 then f
         else if d > 1 / 2 then f + 1
         else if even f then f else f + 1)"

definition py_round :: "real \<Rightarrow> nat \<Rightarrow> real" where
  "py_round x ndigits = of_int (round_half_even (x * 10 ^ ndigits)) / 10 ^ ndigits"

section \<open>Double precision\<close>

text \<open>
  The double nearest to a real number, a tie going to the even mantissa: the number is
  scaled so that its mantissa has 53 bits, rounded to an integer and scaled back.
  Overflow and subnormal numbers are not modelled.
\<close>

definition f64_round :: "real \<Rightarrow> real" where
  "f64_round x =
     (if x = 0 then 0
      else
        let e = \<lfloor>log 2 \<bar>x\<bar>\<rfloor>;
            ulp = 2 powr of_int (e - 52)
        in sgn x * (of_int (round_half_even (\<bar>x\<bar> / ulp)) * ulp))"

text \<open>The arithmetic operations on doubles: the exact result, rounded.\<close>

definition f64_add :: "real \<Rightarrow> real \<Rightarrow> real" where
  "f64_add x y = f64_round (x + y)"

definition f64_sub :: "real \<Rightarrow> real \<Rightarrow> real" where
  "f64_sub x y = f64_round (x - y)"

definition f64_mul :: "real \<Rightarrow> real \<Rightarrow> real" where
  "f64_mul x y = f64_round (x * y)"



text \<open>
  A sum of doubles taken from left to right, starting from 0, every partial sum
  rounded: Python's \<open>sum\<close> (from Python 3.12 on it also carries a compensation
  term, which changes nothing for up to two summands), and the order in which numpy adds
  an array of fewer than eight elements.
\<close>

definition f64_sum :: "real list \<Rightarrow> real" where
  "f64_sum xs = foldl f64_add 0 xs"



text \<open>\<open>round(x, ndigits)\<close> on a double: the double nearest to the rounded decimal.\<close>

definition round_f64 :: "real \<Rightarrow> nat \<Rightarrow> real" where
  "round_f64 x ndigits = f64_round (py_round x ndigits)"

section \<open>Transactions of the predictor module (predictor.py)\<close>

text \<open>
  The functions of predictor.py read their transactions with \<open>tx.get(key, default)\<close>,
  so every key may be missing: a field is \<open>None\<close> when the dictionary has no such key.
\<close>

record tx_dict =
  key_category :: "string option"
  key_amount :: "real option"
  key_date :: "string option"
  key_description :: "string option"

definition get_category :: "tx_dict \<Rightarrow> string" where
  "get_category tx = (case key_category tx of None \<Rightarrow> ''other'' | Some c \<Rightarrow> c)"

definition get_amount :: "tx_dict \<Rightarrow> real" where
  "get_amount tx = (case key_amount tx of None \<Rightarrow> 0 | Some a \<Rightarrow> a)"



definition model_version :: string where
  "model_version = ''1.0''"

section \<open>Spending predictor (predictor.py)\<close>

text \<open>
  A dictionary is the list of its items in insertion order; \<open>map_default\<close> changes the
  value of a key in place, or appends the key when it is new, as Python does.
\<close>

definition group_by_category :: "tx_dict list \<Rightarrow> (string \<times> real list) list" where
  "group_by_category transactions =
     foldl (\<lambda>grouped tx.
              let category = get_category tx;
                  amount = get_amount tx
              in AList.map_default category [amount] (\<lambda>l. l @ [amount]) grouped)
       [] transactions"

definition predictor_calculate_trend :: "real list \<Rightarrow> real \<times> real" where
  "predictor_calculate_trend amounts =
     (if length amounts < 2 then (0, if amounts \<noteq> [] then np_mean amounts else 0)
      else
        let x = map real [0..<length amounts];
            y = amounts;
            mean_x = np_mean x;
            mean_y = np_mean y;
            numerator = sum_list (map (\<lambda>(xi, yi). (xi - mean_x) * (yi - mean_y)) (zip x y));
            denominator = sum_list (map (\<lambda>xi. (xi - mean_x)\<^sup>2) x);
            slope = (if denominator \<noteq> 0 then numerator / denominator else 0);
            intercept = mean_y - slope * mean_x
        in (slope, intercept))"

text \<open>\<open>np.linspace(0, 1, n)\<close>: \<open>n\<close> evenly spaced points from 0 to 1, both included.\<close>

definition linspace01 :: "nat \<Rightarrow> real list" where
  "linspace01 n = (if n = 1 then [0] else map (\<lambda>i. real i / real (n - 1)) [0..<n])"

definition predict_next_period :: "real list \<Rightarrow> real \<Rightarrow> real \<Rightarrow> real" where
  "predict_next_period amounts trend intercept =
     (if length amounts = 0 then 0
      else
        let weights0 = map exp (linspace01 (length amounts));
            weights = map (\<lambda>w. w / sum_list weights0) weights0;
            recent_avg = sum_list (map (\<lambda>(a, w). a * w) (zip amounts weights));
            trend_adjustment = trend * 5
        in recent_avg + trend_adjustment * (1 / 10))"

definition calculate_confidence :: "real list \<Rightarrow> real" where
  "calculate_confidence amounts =
     (if length amounts < 2 then 1 / 2
      else
        let mean = np_mean amounts;
            std = np_std amounts;
            cv = (if mean > 0 then std / (mean + 1) else 0);
            confidence = max (3 / 10) (1 - cv * (1 / 2))
        in min 1 confidence)"

text \<open>
  The result of \<open>predict_spending\<close> is one of two dictionaries: the one with the key
  \<open>error\<close>, or the one with the predictions.
\<close>

datatype prediction_result =
  Error_dict string
  | Prediction_dict "(string \<times> real) list" "(string \<times> real) list" string string

text \<open>One round of the loop over the categories; the state is the two dictionaries.\<close>

definition predict_category ::
  "(string \<times> real) list \<times> (string \<times> real) list \<Rightarrow> string \<times> real list
     \<Rightarrow> (string \<times> real) list \<times> (string \<times> real) list" where
  "predict_category state item =
     (case (state, item) of ((predictions, confidence), (category, amounts)) \<Rightarrow>
        if length amounts < 2 then (predictions, confidence)
        else
          let (trend, intercept) = predictor_calculate_trend amounts;
              predicted = predict_next_period amounts trend intercept
          in (AList.update category (max 0 (py_round predicted 2)) predictions,
              AList.update category (calculate_confidence amounts) confidence))"

definition predict_spending :: "tx_dict list \<Rightarrow> prediction_result" where
  "predict_spending transactions =
     (if transactions = [] \<or> length transactions < 5
      then Error_dict ''Insufficient transaction history''
      else
        let category_data = group_by_category transactions;
            (predictions, confidence) = foldl predict_category ([], []) category_data
        in Prediction_dict predictions confidence ''30_days'' model_version)"

section \<open>Windowed anomaly detector (predictor.py)\<close>

text \<open>The metadata kept for each transaction of a category.\<close>

record item =
  it_amount :: real
  it_date :: string
  it_description :: string













section \<open>Savings optimizer (predictor.py)\<close>

record optimization =
  op_category :: string
  current_spend :: real
  suggested_reduction :: real
  target_spend :: real
  potential_savings :: real

text \<open>
  The result dictionary; for an empty transaction list it has the key
  \<open>optimizations\<close> only.
\<close>

record savings_result =
  optimizations :: "optimization list"
  total_potential_annual_savings :: "real option"
  result_model_version :: "string option"

text \<open>
  The optimizer's arithmetic is on doubles. The literals \<open>0.15\<close> and \<open>0.25\<close> of the
  source are the doubles nearest to them.
\<close>

definition literal_0_15 :: real where
  "literal_0_15 = f64_round (15 / 100)"

definition literal_0_25 :: real where
  "literal_0_25 = f64_round (25 / 100)"

definition category_totals :: "tx_dict list \<Rightarrow> (string \<times> real) list" where
  "category_totals transactions =
     foldl (\<lambda>totals tx.
              let cat = get_category tx;
                  amount = get_amount tx
              in AList.map_default cat (f64_add 0 amount) (\<lambda>t. f64_add t amount) totals)
       [] transactions"

definition make_optimization :: "string \<times> real \<Rightarrow> optimization" where
  "make_optimization entry =
     (case entry of (category, amount) \<Rightarrow>
        let reduction_target = f64_mul amount literal_0_15
        in \<lparr> op_category = category,
             current_spend = round_f64 amount 2,
             suggested_reduction = round_f64 reduction_target 2,
             target_spend = round_f64 (f64_sub amount reduction_target) 2,
             potential_savings = round_f64 (f64_mul reduction_target 12) 2 \<rparr>)"

text \<open>
  \<open>sorted(..., key = amount, reverse = True)\<close> is stable and puts the larger amounts
  first: a stable sort on the negated amount.
\<close>

definition optimize_savings :: "tx_dict list \<Rightarrow> real \<Rightarrow> savings_result" where
  "optimize_savings transactions budget_limit =
     (if transactions = []
      then \<lparr> optimizations = [], total_potential_annual_savings = None,
             result_model_version = None \<rparr>
      else
        let totals = category_totals transactions;
            over_budget_categories =
              filter (\<lambda>(cat, amt). amt > f64_mul budget_limit literal_0_25) totals;
            opts = map make_optimization
                     (sort_key (\<lambda>x. - snd x) over_budget_categories)
        in \<lparr> optimizations = opts,
             total_potential_annual_savings =
               Some (round_f64 (f64_sum (map potential_savings opts)) 2),
             result_model_version = Some model_version \<rparr>)"

section \<open>Auxiliary definitions for the statements\<close>








text \<open>The loop invariant of \<open>predict_spending\<close>, on the two dictionaries.\<close>

definition prediction_ok :: "(string \<times> real) list \<times> (string \<times> real) list \<Rightarrow> bool" where
  "prediction_ok state \<longleftrightarrow>
     (\<forall>(c, v) \<in> set (fst state). 0 \<le> v)
     \<and> (\<forall>(c, v) \<in> set (snd state). 3 / 10 \<le> v \<and> v \<le> 1)"

section \<open>Sample inputs\<close>




definition sample_transactions :: "transaction list" where
  "sample_transactions =
     [\<lparr> tx_date = \<lparr> year = 2024, month = 1, day = 10 \<rparr>, tx_amount = 150,
        tx_category = ''groceries'', tx_type = ''EXPENSE'' \<rparr>,
      \<lparr> tx_date = \<lparr> year = 2024, month = 1, day = 15 \<rparr>, tx_amount = 300,
        tx_category = ''utilities'', tx_type = ''EXPENSE'' \<rparr>,
      \<lparr> tx_date = \<lparr> year = 2024, month = 1, day = 20 \<rparr>, tx_amount = 80,
        tx_category = ''entertainment'', tx_type = ''EXPENSE'' \<rparr>]"

definition sample_budgets :: "(string \<times> real) list" where
  "sample_budgets = [(''groceries'', 400), (''utilities'', 200), (''entertainment'', 150)]"

definition groceries :: "real \<Rightarrow> tx_dict" where
  "groceries a = \<lparr> key_category = Some ''groceries'', key_amount = Some a,
                   key_date = Some ''2024-12-01'', key_description = None \<rparr>"

definition spend :: "string \<Rightarrow> real \<Rightarrow> tx_dict" where
  "spend c a = \<lparr> key_category = Some c, key_amount = Some a,
                 key_date = Some ''2024-12-01'', key_description = None \<rparr>"

definition sample_spending :: "tx_dict list" where
  "sample_spending =
     [spend ''groceries'' 185, spend ''entertainment'' 200, spend ''rent'' 2000,
      spend ''entertainment'' 1200]"

text \<open>Two transactions of 1311.13 and 1300.37, as doubles.\<close>

definition sample_cents :: "tx_dict list" where
  "sample_cents =
     [spend ''travel'' (f64_round (131113 / 100)), spend ''housing'' (f64_round (130037 / 100))]"






section \<open>Properties of rounding\<close>

lemma round_half_even_bounds:
  "\<lfloor>y\<rfloor> \<le> round_half_even y \<and> round_half_even y \<le> \<lfloor>y\<rfloor> + 1"
  by (simp add: round_half_even_def Let_def)

lemma round_half_even_mono:
  assumes "x \<le> y"
  shows "round_half_even x \<le> round_half_even y"
proof (cases "\<lfloor>x\<rfloor> = \<lfloor>y\<rfloor>")
  case True
  with assms have "x - of_int \<lfloor>x\<rfloor> \<le> y - of_int \<lfloor>y\<rfloor>" by simp
  with True show ?thesis by (auto simp: round_half_even_def Let_def)
next
  case False
  from assms have "\<lfloor>x\<rfloor> \<le> \<lfloor>y\<rfloor>" by (rule floor_mono)
  with False have "\<lfloor>x\<rfloor> + 1 \<le> \<lfloor>y\<rfloor>" by simp
  with round_half_even_bounds [of x] round_half_even_bounds [of y]
  show ?thesis by linarith
qed

lemma py_round_mono:
  assumes "x \<le> y"
  shows "py_round x n \<le> py_round y n"
proof -
  have "x * 10 ^ n \<le> y * 10 ^ n" using assms by (simp add: mult_right_mono)
  then have "round_half_even (x * 10 ^ n) \<le> round_half_even (y * 10 ^ n)"
    by (rule round_half_even_mono)
  then show ?thesis by (simp add: py_round_def divide_right_mono)
qed

lemma round_half_even_of_int: "round_half_even (of_int k) = k"
  by (simp add: round_half_even_def)

lemma floor_log2_eq:
  assumes "2 powr of_int e \<le> x" and "x < 2 powr of_int (e + 1)"
  shows "\<lfloor>log 2 x\<rfloor> = e"
proof -
  have p: "0 < x" using assms(1) by (smt (verit) powr_gt_zero)
  have "of_int e \<le> log 2 x" using assms(1) p by (simp add: le_log_iff)
  moreover have "log 2 x < of_int (e + 1)" using assms(2) p by (simp add: log_less_iff)
  ultimately show ?thesis by (simp add: floor_eq_iff)
qed

lemma f64_round_eval:
  assumes "2 powr of_int e \<le> \<bar>x\<bar>" and "\<bar>x\<bar> < 2 powr of_int (e + 1)"
  shows "f64_round x =
           sgn x * (of_int (round_half_even (\<bar>x\<bar> / 2 powr of_int (e - 52)))
                    * 2 powr of_int (e - 52))"
proof -
  have "x \<noteq> 0" using assms(1) by (smt (verit) powr_gt_zero)
  then show ?thesis
    by (simp add: f64_round_def Let_def floor_log2_eq [OF assms])
qed

lemma f64_round_up:
  assumes "2 ^ n \<le> \<bar>x\<bar>" and "\<bar>x\<bar> < 2 * 2 ^ n"
  shows "f64_round x = sgn x * (of_int (round_half_even (\<bar>x\<bar> * 2 ^ 52 / 2 ^ n)) * 2 ^ n / 2 ^ 52)"
proof -
  have a: "2 powr real n = (2::real) ^ n" by (simp add: powr_realpow)
  have b: "2 powr (real n + 1) = (2::real) * 2 ^ n"
    by (simp add: powr_add powr_realpow)
  have c: "2 powr (real n - 52) = (2::real) ^ n / 2 ^ 52"
    by (simp add: powr_diff powr_realpow)
  have "f64_round x =
          sgn x * (of_int (round_half_even (\<bar>x\<bar> / 2 powr (real n - 52)))
                   * 2 powr (real n - 52))"
    using f64_round_eval [of "int n" x] assms by (simp add: a b)
  then show ?thesis unfolding c by simp
qed

lemma f64_round_down:
  assumes "1 \<le> \<bar>x\<bar> * 2 ^ n" and "\<bar>x\<bar> * 2 ^ n < 2"
  shows "f64_round x = sgn x * (of_int (round_half_even (\<bar>x\<bar> * 2 ^ (n + 52))) / 2 ^ (n + 52))"
proof -
  have a: "2 powr (- real n) = 1 / (2::real) ^ n"
    by (simp add: powr_minus powr_realpow inverse_eq_divide)
  have b: "2 powr (1 - real n) = 2 / (2::real) ^ n"
    by (simp add: powr_diff powr_realpow)
  have c: "2 powr (- real n - 52) = 1 / (2::real) ^ (n + 52)"
  proof -
    have "2 powr (- real n - 52) = (2::real) powr (- real n) / 2 powr 52"
      by (rule powr_diff)
    also have "\<dots> = (1 / 2 ^ n) / 2 ^ 52" by (simp add: a)
    also have "\<dots> = 1 / 2 ^ (n + 52)" by (simp add: power_add)
    finally show ?thesis .
  qed
  have l: "2 powr (- real n) \<le> \<bar>x\<bar>" using assms(1) by (simp add: a field_simps)
  have u: "\<bar>x\<bar> < 2 powr (1 - real n)" using assms(2) by (simp add: b field_simps)
  have "f64_round x =
          sgn x * (of_int (round_half_even (\<bar>x\<bar> / 2 powr (- real n - 52)))
                   * 2 powr (- real n - 52))"
    using f64_round_eval [of "- int n" x] l u by simp
  then show ?thesis unfolding c by simp
qed

lemma floor_log2_bounds:
  assumes "0 < x"
  shows "2 powr of_int \<lfloor>log 2 x\<rfloor> \<le> x" and "x < 2 powr of_int (\<lfloor>log 2 x\<rfloor> + 1)"
proof -
  show "2 powr of_int \<lfloor>log 2 x\<rfloor> \<le> x"
    using assms le_log_iff [of 2 x "of_int \<lfloor>log 2 x\<rfloor>"] by simp
  have "log 2 x < of_int (\<lfloor>log 2 x\<rfloor> + 1)" by linarith
  then show "x < 2 powr of_int (\<lfloor>log 2 x\<rfloor> + 1)"
    using assms log_less_iff [of 2 x "of_int (\<lfloor>log 2 x\<rfloor> + 1)"] by simp
qed

lemma f64_round_pos:
  assumes "0 < x"
  shows "f64_round x =
           of_int (round_half_even (x / 2 powr of_int (\<lfloor>log 2 x\<rfloor> - 52)))
             * 2 powr of_int (\<lfloor>log 2 x\<rfloor> - 52)"
  using assms by (simp add: f64_round_def Let_def)

lemma f64_round_pos_bounds:
  assumes "0 < x"
  shows "2 powr of_int \<lfloor>log 2 x\<rfloor> \<le> f64_round x"
    and "f64_round x \<le> 2 powr of_int (\<lfloor>log 2 x\<rfloor> + 1)"
proof -
  let ?e = "\<lfloor>log 2 x\<rfloor>"
  let ?u = "2 powr of_int (?e - 52) :: real"
  have u: "0 < ?u" by simp
  have lo: "2 powr of_int ?e = 2 ^ 52 * ?u"
  proof -
    have "(of_int ?e :: real) = 52 + of_int (?e - 52)" by simp
    then have "(2::real) powr of_int ?e = 2 powr (52 + of_int (?e - 52))" by (simp only:)
    also have "\<dots> = 2 powr 52 * ?u" by (rule powr_add)
    finally show ?thesis by simp
  qed
  have hi: "2 powr of_int (?e + 1) = 2 ^ 53 * ?u"
  proof -
    have "(of_int (?e + 1) :: real) = 53 + of_int (?e - 52)" by simp
    then have "(2::real) powr of_int (?e + 1) = 2 powr (53 + of_int (?e - 52))" by (simp only:)
    also have "\<dots> = 2 powr 53 * ?u" by (rule powr_add)
    finally show ?thesis by simp
  qed
  from floor_log2_bounds [OF assms] have "2 ^ 52 * ?u \<le> x" and "x < 2 ^ 53 * ?u"
    by (simp_all only: lo hi)
  then have a: "of_int (2 ^ 52) \<le> x / ?u" and b: "x / ?u \<le> of_int (2 ^ 53)"
    using u by (simp_all add: field_simps)
  from round_half_even_mono [OF a] have a': "2 ^ 52 \<le> round_half_even (x / ?u)"
    by (simp only: round_half_even_of_int)
  from round_half_even_mono [OF b] have b': "round_half_even (x / ?u) \<le> 2 ^ 53"
    by (simp only: round_half_even_of_int)
  have "2 ^ 52 * ?u \<le> of_int (round_half_even (x / ?u)) * ?u"
    using a' u by (intro mult_right_mono) (simp_all add: of_int_le_iff [symmetric] del: of_int_le_iff)
  then show "2 powr of_int ?e \<le> f64_round x"
    by (simp only: lo f64_round_pos [OF assms])
  have "of_int (round_half_even (x / ?u)) * ?u \<le> 2 ^ 53 * ?u"
    using b' u by (intro mult_right_mono) (simp_all add: of_int_le_iff [symmetric] del: of_int_le_iff)
  then show "f64_round x \<le> 2 powr of_int (?e + 1)"
    by (simp only: hi f64_round_pos [OF assms])
qed

lemma f64_round_mono_pos:
  assumes "0 < x" and "x \<le> y"
  shows "f64_round x \<le> f64_round y"
proof -
  from assms have y: "0 < y" by simp
  have le: "\<lfloor>log 2 x\<rfloor> \<le> \<lfloor>log 2 y\<rfloor>"
    using assms by (intro floor_mono) simp
  show ?thesis
  proof (cases "\<lfloor>log 2 x\<rfloor> = \<lfloor>log 2 y\<rfloor>")
    case True
    let ?u = "2 powr of_int (\<lfloor>log 2 y\<rfloor> - 52) :: real"
    have "x / ?u \<le> y / ?u" using assms(2) by (simp add: divide_right_mono)
    then have "round_half_even (x / ?u) \<le> round_half_even (y / ?u)"
      by (rule round_half_even_mono)
    then have "of_int (round_half_even (x / ?u)) * ?u \<le> of_int (round_half_even (y / ?u)) * ?u"
      by (intro mult_right_mono) simp_all
    then show ?thesis by (simp only: f64_round_pos [OF assms(1)] f64_round_pos [OF y] True)
  next
    case False
    with le have "\<lfloor>log 2 x\<rfloor> + 1 \<le> \<lfloor>log 2 y\<rfloor>" by simp
    then have "(2::real) powr of_int (\<lfloor>log 2 x\<rfloor> + 1) \<le> 2 powr of_int \<lfloor>log 2 y\<rfloor>"
      by (intro powr_mono) simp_all
    with f64_round_pos_bounds(2) [OF assms(1)] f64_round_pos_bounds(1) [OF y]
    show ?thesis by linarith
  qed
qed

lemma f64_round_minus: "f64_round (- x) = - f64_round x"
  by (simp add: f64_round_def Let_def)

lemma f64_round_nonneg:
  assumes "0 \<le> x"
  shows "0 \<le> f64_round x"
proof (cases "x = 0")
  case True
  then show ?thesis by (simp add: f64_round_def)
next
  case False
  with assms have p: "0 < x" by simp
  have "(0::real) \<le> 2 powr of_int \<lfloor>log 2 x\<rfloor>" by simp
  with f64_round_pos_bounds(1) [OF p] show ?thesis by linarith
qed

lemma f64_round_mono:
  assumes "x \<le> y"
  shows "f64_round x \<le> f64_round y"
proof -
  consider "0 < x" | "x \<le> 0" "0 \<le> y" | "y < 0" by linarith
  then show ?thesis
  proof cases
    case 1
    then show ?thesis using assms by (rule f64_round_mono_pos)
  next
    case 2
    from 2(1) have "0 \<le> f64_round (- x)" by (intro f64_round_nonneg) simp
    then have "f64_round x \<le> 0" by (simp add: f64_round_minus)
    with f64_round_nonneg [OF 2(2)] show ?thesis by linarith
  next
    case 3
    then have "0 < - y" and "- y \<le> - x" using assms by simp_all
    then have "f64_round (- y) \<le> f64_round (- x)" by (rule f64_round_mono_pos)
    then show ?thesis by (simp add: f64_round_minus)
  qed
qed

section \<open>Properties of the health scorer\<close>

text \<open>
  C1 (the code at the failing input). For net worth 50000, income 5000, expenses 2500
  and debt ratio 0.15 the code returns a savings-rate sub-score of 2.5, a debt-ratio
  sub-score of 21.25, an emergency-fund sub-score of 25, an income-stability sub-score
  of 15, an overall score of 63.75 and the rating GOOD: the savings rate 0.5 gives
  \<open>0.5 * 100 / 20 = 2.5\<close>, where the claim has the capped 25, 86.25 and EXCELLENT.
\<close>

theorem health_example_values:
  "get_financial_health_score 50000 5000 2500 (15 / 100) =
     \<lparr> overall_score = 6375 / 100,
       breakdown = \<lparr> savings_rate = 25 / 10, debt_ratio = 2125 / 100,
                     emergency_fund = 25, income_stability = 15 \<rparr>,
       rating = GOOD,
       recommendations = [''Increase saving rate by reducing expenses''] \<rparr>"
  by (simp add: get_financial_health_score_def compute_scores_def get_health_rating_def
        get_health_recommendations_def Let_def)

text \<open>
  The formula of the savings-rate sub-score lacks the factor 25 that the two other
  computed sub-scores have. As long as the expenses are not negative it stays at or below
  5, so its cap at 25 is never reached, the recommendation to increase the saving rate
  is always given, and with a non-negative debt ratio the overall score is at most 70:
  the rating EXCELLENT cannot be reached.
\<close>

lemma savings_rate_at_most_5:
  assumes "0 \<le> e"
  shows "savings_rate (compute_scores w i e d) \<le> 5"
proof (cases "0 < i")
  case True
  define r where "r = (i - e) / i"
  from True assms have "r \<le> 1" by (simp add: r_def field_simps)
  then have "min 25 (max 0 (r * 100 / 20)) \<le> 5" by simp
  with True show ?thesis by (simp only: compute_scores_def Let_def r_def if_True scores.simps)
next
  case False
  then show ?thesis by (simp add: compute_scores_def Let_def)
qed

lemma saving_recommendation_always_given:
  assumes "0 \<le> e"
  shows "''Increase saving rate by reducing expenses''
           \<in> set (recommendations (get_financial_health_score w i e d))"
proof -
  from savings_rate_at_most_5 [OF assms, of w i d]
  have "savings_rate (compute_scores w i e d) < 10" by simp
  then show ?thesis
    by (simp add: get_financial_health_score_def get_health_recommendations_def Let_def)
qed

lemma excellent_unreachable:
  assumes "0 \<le> e" and "0 \<le> d"
  shows "overall_score (get_financial_health_score w i e d) \<le> 70"
    and "rating (get_financial_health_score w i e d) \<noteq> EXCELLENT"
proof -
  have a: "savings_rate (compute_scores w i e d) \<le> 5"
    using assms(1) by (rule savings_rate_at_most_5)
  have b: "debt_ratio (compute_scores w i e d) \<le> 25"
    using assms(2) by (auto simp: compute_scores_def Let_def min_def max_def)
  have c: "emergency_fund (compute_scores w i e d) \<le> 25"
    by (simp add: compute_scores_def Let_def)
  have d: "income_stability (compute_scores w i e d) = 15"
    by (simp add: compute_scores_def Let_def)
  from a b c d show t: "overall_score (get_financial_health_score w i e d) \<le> 70"
    by (simp add: get_financial_health_score_def Let_def)
  then show "rating (get_financial_health_score w i e d) \<noteq> EXCELLENT"
    by (simp add: get_financial_health_score_def get_health_rating_def Let_def)
qed

text \<open>
  C2 (the code at a failing input). With a negative net worth of -6000, income 5000,
  expenses 1000 and debt ratio 0.15 the emergency-fund sub-score is -25, below the band
  [0, 25]; with a debt ratio of -1 the debt-ratio sub-score is 50, above it.
\<close>

theorem health_subscores_leave_band:
  "emergency_fund (breakdown (get_financial_health_score (- 6000) 5000 1000 (15 / 100))) = - 25
   \<and> debt_ratio (breakdown (get_financial_health_score 50000 5000 2500 (- 1))) = 50"
  by (simp add: get_financial_health_score_def compute_scores_def Let_def)

text \<open>
  What does hold for every input: the savings-rate and income-stability sub-scores are
  in the band, the debt-ratio sub-score is never negative and the emergency-fund
  sub-score never exceeds 25; and when neither the net worth nor the debt ratio is
  negative, all four sub-scores are in the band.
\<close>

lemma health_subscores_one_sided:
  "0 \<le> savings_rate (compute_scores w i e d) \<and> savings_rate (compute_scores w i e d) \<le> 25
   \<and> income_stability (compute_scores w i e d) = 15
   \<and> 0 \<le> debt_ratio (compute_scores w i e d)
   \<and> emergency_fund (compute_scores w i e d) \<le> 25"
  by (simp add: compute_scores_def Let_def)

lemma health_subscores_in_band:
  assumes "0 \<le> w" and "0 \<le> d"
  shows "debt_ratio (compute_scores w i e d) \<le> 25
         \<and> 0 \<le> emergency_fund (compute_scores w i e d)"
  using assms by (auto simp: compute_scores_def Let_def min_def max_def)

section \<open>Properties of the statistics\<close>

lemma np_mean_const:
  assumes "xs \<noteq> []" and "\<forall>x\<in>set xs. x = v"
  shows "np_mean xs = v"
proof -
  from assms(2) have "xs = replicate (length xs) v"
    by (simp add: replicate_length_same)
  then have "sum_list xs = real (length xs) * v"
    by (metis sum_list_replicate)
  with assms(1) show ?thesis by (simp add: np_mean_def)
qed

lemma np_std_const:
  assumes "xs \<noteq> []" and "\<forall>x\<in>set xs. x = v"
  shows "np_std xs = 0"
proof -
  have m: "np_mean xs = v" using assms by (rule np_mean_const)
  have "map (\<lambda>x. (x - v)\<^sup>2) xs = map (\<lambda>x. 0) xs"
    using assms(2) by (intro map_cong) auto
  then have "sum_list (map (\<lambda>x. (x - v)\<^sup>2) xs) = sum_list (map (\<lambda>x. 0) xs)"
    by (rule arg_cong)
  then have "sum_list (map (\<lambda>x. (x - v)\<^sup>2) xs) = 0" by simp
  then show ?thesis by (simp add: np_std_def m)
qed

section \<open>Properties of the trend classifier and the inline detector\<close>













section \<open>Properties of the budget evaluator\<close>

text \<open>
  C5. In every entry of the result of \<open>analyze_budget_performance\<close> the status is
  OVER exactly when the spent percentage is above 100, WARNING exactly when it is above
  80 and at most 100, and ON\_TRACK exactly when it is at most 80.
\<close>

theorem budget_status_partition:
  assumes "analyze_budget_performance transactions budgets now = Inr performance"
    and "(category, b) \<in> set performance"
  shows "(status b = OVER \<longleftrightarrow> spent_percent b > 100)
       \<and> (status b = WARNING \<longleftrightarrow> 80 < spent_percent b \<and> spent_percent b \<le> 100)
       \<and> (status b = ON_TRACK \<longleftrightarrow> spent_percent b \<le> 80)"
proof -
  from assms obtain cm amount where "b = budget_entry cm category amount"
    by (auto simp: analyze_budget_performance_def Let_def split: sum.splits)
  then show ?thesis by (simp add: budget_entry_def Let_def)
qed

theorem budget_status_partition_witness:
  "analyze_budget_performance sample_transactions sample_budgets
      \<lparr> year = 2024, month = 1, day = 25 \<rparr> =
     Inr [(''groceries'', \<lparr> budget = 400, spent = 150, remaining = 250,
                             spent_percent = 75 / 2, status = ON_TRACK \<rparr>),
          (''utilities'', \<lparr> budget = 200, spent = 300, remaining = - 100,
                             spent_percent = 150, status = OVER \<rparr>),
          (''entertainment'', \<lparr> budget = 150, spent = 80, remaining = 70,
                             spent_percent = 160 / 3, status = ON_TRACK \<rparr>)]
   \<and> (status \<lparr> budget = 200, spent = 300, remaining = - 100,
                 spent_percent = 150, status = OVER \<rparr> = OVER
        \<longleftrightarrow> spent_percent \<lparr> budget = 200, spent = 300, remaining = - 100,
                               spent_percent = 150, status = OVER \<rparr> > 100)"
proof -
  have e: "analyze_budget_performance sample_transactions sample_budgets
      \<lparr> year = 2024, month = 1, day = 25 \<rparr> =
     Inr [(''groceries'', \<lparr> budget = 400, spent = 150, remaining = 250,
                             spent_percent = 75 / 2, status = ON_TRACK \<rparr>),
          (''utilities'', \<lparr> budget = 200, spent = 300, remaining = - 100,
                             spent_percent = 150, status = OVER \<rparr>),
          (''entertainment'', \<lparr> budget = 150, spent = 80, remaining = 70,
                             spent_percent = 160 / 3, status = ON_TRACK \<rparr>)]"
    unfolding analyze_budget_performance_def DataFrame_def getitem_def
      sample_transactions_def sample_budgets_def budget_entry_def Let_def
    by simp
  have m: "(''utilities'', \<lparr> budget = 200, spent = 300, remaining = - 100,
                              spent_percent = 150, status = OVER \<rparr>)
           \<in> set [(''groceries'', \<lparr> budget = 400, spent = 150, remaining = 250,
                             spent_percent = 75 / 2, status = ON_TRACK \<rparr>),
          (''utilities'', \<lparr> budget = 200, spent = 300, remaining = - 100,
                             spent_percent = 150, status = OVER \<rparr>),
          (''entertainment'', \<lparr> budget = 150, spent = 80, remaining = 70,
                             spent_percent = 160 / 3, status = ON_TRACK \<rparr>)]"
    by simp
  from budget_status_partition [OF e m] e show ?thesis by simp
qed

text \<open>
  C3 (the code at a failing input). Called with the empty transaction list,
  \<open>analyze_budget_performance\<close> raises \<open>KeyError\<close> on the column \<open>date\<close>,
  whatever the budgets and the clock.
\<close>

theorem empty_transactions_raise:
  "analyze_budget_performance [] budgets now = Inl (KeyError ''date'')"
  by (simp add: analyze_budget_performance_def DataFrame_def getitem_def)

section \<open>Properties of the spending predictor\<close>

lemma set_update_subset: "set (AList.update k v al) \<subseteq> insert (k, v) (set al)"
  by (induction al) auto

lemma clamp_confidence:
  "3 / 10 \<le> min 1 (max (3 / 10) x) \<and> min 1 (max (3 / 10) x) \<le> (1::real)"
  by auto

lemma calculate_confidence_range:
  "3 / 10 \<le> calculate_confidence amounts \<and> calculate_confidence amounts \<le> 1"
proof (cases "length amounts < 2")
  case True
  then show ?thesis by (simp add: calculate_confidence_def)
next
  case False
  then show ?thesis
    unfolding calculate_confidence_def Let_def using clamp_confidence by simp
qed

lemma predict_category_ok:
  assumes "prediction_ok state"
  shows "prediction_ok (predict_category state item)"
proof -
  obtain predictions confidence where st: "state = (predictions, confidence)"
    by (cases state)
  obtain category amounts where it: "item = (category, amounts)" by (cases item)
  show ?thesis
  proof (cases "length amounts < 2")
    case True
    with assms st it show ?thesis by (simp add: predict_category_def)
  next
    case False
    obtain trend intercept where tr: "predictor_calculate_trend amounts = (trend, intercept)"
      by (cases "predictor_calculate_trend amounts")
    let ?v = "max 0 (py_round (predict_next_period amounts trend intercept) 2)"
    have p: "predict_category state item =
               (AList.update category ?v predictions,
                AList.update category (calculate_confidence amounts) confidence)"
      using False st it tr by (simp add: predict_category_def Let_def)
    have a: "\<forall>(c, v) \<in> set (AList.update category ?v predictions). 0 \<le> v"
      using assms st set_update_subset [of category ?v predictions]
      by (auto simp: prediction_ok_def)
    have b: "\<forall>(c, v) \<in> set (AList.update category (calculate_confidence amounts) confidence).
               3 / 10 \<le> v \<and> v \<le> 1"
      using assms st calculate_confidence_range [of amounts]
        set_update_subset [of category "calculate_confidence amounts" confidence]
      by (auto simp: prediction_ok_def)
    from a b show ?thesis by (simp add: p prediction_ok_def)
  qed
qed

lemma foldl_predict_category_ok:
  "prediction_ok state \<Longrightarrow> prediction_ok (foldl predict_category state items)"
  by (induction items arbitrary: state) (simp_all add: predict_category_ok)

text \<open>
  C4. For a list of five or more transactions \<open>predict_spending\<close> returns the
  dictionary with the predictions, every value of \<open>predicted_spending\<close> is
  non-negative, and every value of \<open>confidence\<close> lies between 0.3 and 1.
\<close>

theorem predictions_in_range:
  assumes "5 \<le> length transactions"
  shows "\<exists>predictions confidence period version.
           predict_spending transactions = Prediction_dict predictions confidence period version
           \<and> (\<forall>(c, v) \<in> set predictions. 0 \<le> v)
           \<and> (\<forall>(c, v) \<in> set confidence. 3 / 10 \<le> v \<and> v \<le> 1)"
proof -
  obtain predictions confidence where
    f: "foldl predict_category ([], []) (group_by_category transactions) = (predictions, confidence)"
    by (cases "foldl predict_category ([], []) (group_by_category transactions)")
  have "prediction_ok ([], [])" by (simp add: prediction_ok_def)
  then have "prediction_ok (foldl predict_category ([], []) (group_by_category transactions))"
    by (rule foldl_predict_category_ok)
  with f have ok: "prediction_ok (predictions, confidence)" by simp
  from assms have ne: "transactions \<noteq> []" by auto
  have "predict_spending transactions = Prediction_dict predictions confidence ''30_days'' model_version"
    using assms ne f by (simp add: predict_spending_def Let_def)
  with ok show ?thesis by (auto simp: prediction_ok_def)
qed

lemma group_groceries: "group_by_category [groceries 50, groceries 75, groceries 60, groceries 50, groceries 75]
 = [(''groceries'', [50, 75, 60, 50, 75])]"
  by (simp add: group_by_category_def groceries_def get_category_def get_amount_def)

theorem predictions_in_range_witness:
  "5 \<le> length [groceries 50, groceries 75, groceries 60, groceries 50, groceries 75]
   \<and> (\<exists>predictions confidence period version.
           predict_spending [groceries 50, groceries 75, groceries 60, groceries 50, groceries 75]
             = Prediction_dict predictions confidence period version
           \<and> map fst predictions = [''groceries'']
           \<and> (\<forall>(c, v) \<in> set predictions. 0 \<le> v)
           \<and> (\<forall>(c, v) \<in> set confidence. 3 / 10 \<le> v \<and> v \<le> 1))"
proof -
  let ?txs = "[groceries 50, groceries 75, groceries 60, groceries 50, groceries 75]"
  have l: "5 \<le> length ?txs" by simp
  from predictions_in_range [OF l] obtain predictions confidence period version where
    r: "predict_spending ?txs = Prediction_dict predictions confidence period version"
       "\<forall>(c, v) \<in> set predictions. 0 \<le> v"
       "\<forall>(c, v) \<in> set confidence. 3 / 10 \<le> v \<and> v \<le> 1"
    by blast
  have m: "map fst predictions = [''groceries'']"
    using r(1) by (auto simp: predict_spending_def group_groceries predict_category_def Let_def
       split: prod.splits)
  show ?thesis
    apply (rule conjI)
     apply (rule l)
    apply (intro exI conjI)
       apply (rule r(1))
      apply (rule m)
     apply (rule r(2))
    apply (rule r(3))
    done
qed

section \<open>Properties of the savings optimizer\<close>

lemma round_f64_mono:
  assumes "x \<le> y"
  shows "round_f64 x n \<le> round_f64 y n"
  unfolding round_f64_def using assms by (intro f64_round_mono py_round_mono)

lemma potential_savings_make:
  "potential_savings (make_optimization e) =
     round_f64 (f64_mul (f64_mul (snd e) literal_0_15) 12) 2"
  by (cases e) (simp add: make_optimization_def Let_def)

lemma current_spend_make: "current_spend (make_optimization e) = round_f64 (snd e) 2"
  by (cases e) (simp add: make_optimization_def Let_def)

lemma sorted_desc_current_spend:
  "sorted_wrt (\<lambda>a b. b \<le> a) (map current_spend (map make_optimization (sort_key (\<lambda>x. - snd x) xs)))"
proof -
  have "sorted (map (\<lambda>x. - snd x) (sort_key (\<lambda>x. - snd x) xs))" by (rule sorted_sort_key)
  then have "sorted_wrt (\<lambda>x y. - snd x \<le> - snd y) (sort_key (\<lambda>x. - snd x) xs)"
    by (simp only: sorted_map)
  then have "sorted_wrt (\<lambda>x y. current_spend (make_optimization y) \<le> current_spend (make_optimization x))
               (sort_key (\<lambda>x. - snd x) xs)"
    by (rule sorted_wrt_mono_rel [rotated]) (simp add: current_spend_make round_f64_mono)
  then show ?thesis by (simp add: sorted_wrt_map)
qed

text \<open>The arithmetic of the optimizer on 1311.13 and 1300.37 with the limit 5000.\<close>

lemma double_1311_13: "f64_round (131113 / 100) = 1441602680525947 / 1099511627776"
  unfolding f64_add_def
  by (subst f64_round_up [where n = 10]) (simp_all add: round_half_even_def Let_def)

lemma double_1300_37: "f64_round (130037 / 100) = 1429771935411077 / 1099511627776"
  unfolding f64_add_def
  by (subst f64_round_up [where n = 10]) (simp_all add: round_half_even_def Let_def)

lemma literal_0_15_value: "literal_0_15 = 5404319552844595 / 36028797018963968"
  unfolding literal_0_15_def
  by (subst f64_round_down [where n = 3]) (simp_all add: round_half_even_def Let_def)

lemma literal_0_25_value: "literal_0_25 = 1 / 4"
  unfolding literal_0_25_def
  by (subst f64_round_down [where n = 2]) (simp_all add: round_half_even_def Let_def)

lemma quarter_of_5000: "f64_mul 5000 (1 / 4) = 1250"
  unfolding f64_mul_def
  by (subst f64_round_up [where n = 10]) (simp_all add: round_half_even_def Let_def)

lemma total_1311_13: "f64_add 0 (1441602680525947 / 1099511627776) = 1441602680525947 / 1099511627776"
  unfolding f64_add_def
  by (subst f64_round_up [where n = 10]) (simp_all add: round_half_even_def Let_def)

lemma reduction_1311_13: "f64_mul (1441602680525947 / 1099511627776) (5404319552844595 / 36028797018963968) = 6919692866524545 / 35184372088832"
  unfolding f64_mul_def
  by (subst f64_round_up [where n = 7]) (simp_all add: round_half_even_def Let_def)

lemma annual_1311_13: "f64_mul (6919692866524545 / 35184372088832) 12 = 5189769649893409 / 2199023255552"
  unfolding f64_mul_def
  by (subst f64_round_up [where n = 11]) (simp_all add: round_half_even_def Let_def)

lemma savings_1311_13: "round_f64 (5189769649893409 / 2199023255552) 2 = 5189760853800387 / 2199023255552"
  unfolding round_f64_def py_round_def
  by (subst f64_round_up [where n = 11]) (simp_all add: round_half_even_def Let_def)

lemma total_1300_37: "f64_add 0 (1429771935411077 / 1099511627776) = 1429771935411077 / 1099511627776"
  unfolding f64_add_def
  by (subst f64_round_up [where n = 10]) (simp_all add: round_half_even_def Let_def)

lemma reduction_1300_37: "f64_mul (1429771935411077 / 1099511627776) (5404319552844595 / 36028797018963968) = 6862905289973169 / 35184372088832"
  unfolding f64_mul_def
  by (subst f64_round_up [where n = 7]) (simp_all add: round_half_even_def Let_def)

lemma annual_1300_37: "f64_mul (6862905289973169 / 35184372088832) 12 = 5147178967479877 / 2199023255552"
  unfolding f64_mul_def
  by (subst f64_round_up [where n = 11]) (simp_all add: round_half_even_def Let_def)

lemma savings_1300_37: "round_f64 (5147178967479877 / 2199023255552) 2 = 1286796940893225 / 549755813888"
  unfolding round_f64_def py_round_def
  by (subst f64_round_up [where n = 11]) (simp_all add: round_half_even_def Let_def)

lemma sum_first: "f64_add 0 (5189760853800387 / 2199023255552) = 5189760853800387 / 2199023255552"
  unfolding f64_add_def
  by (subst f64_round_up [where n = 11]) (simp_all add: round_half_even_def Let_def)

lemma sum_second: "f64_add (5189760853800387 / 2199023255552) (1286796940893225 / 549755813888) = 1292118577171661 / 274877906944"
  unfolding f64_add_def
  by (subst f64_round_up [where n = 12]) (simp_all add: round_half_even_def Let_def)

lemma sum_rounded: "round_f64 (1292118577171661 / 274877906944) 2 = 5168474308686643 / 1099511627776"
  unfolding round_f64_def py_round_def
  by (subst f64_round_up [where n = 12]) (simp_all add: round_half_even_def Let_def)

lemma sample_cents_totals:
  "category_totals sample_cents = [(''travel'', 1441602680525947 / 1099511627776), (''housing'', 1429771935411077 / 1099511627776)]"
  by (simp add: category_totals_def sample_cents_def spend_def get_category_def
        get_amount_def double_1311_13 double_1300_37 total_1311_13 total_1300_37)

lemma sample_cents_savings:
  "map potential_savings (optimizations (optimize_savings sample_cents 5000)) =
     [5189760853800387 / 2199023255552, 1286796940893225 / 549755813888]"
proof -
  have ne: "sample_cents \<noteq> []" by (simp add: sample_cents_def)
  have "optimizations (optimize_savings sample_cents 5000) =
          map make_optimization [(''travel'', 1441602680525947 / 1099511627776), (''housing'', 1429771935411077 / 1099511627776)]"
    using ne by (simp add: optimize_savings_def Let_def sample_cents_totals
                   literal_0_25_value quarter_of_5000)
  then show ?thesis
    by (simp add: potential_savings_make literal_0_15_value reduction_1311_13
          annual_1311_13 savings_1311_13 reduction_1300_37 annual_1300_37 savings_1300_37)
qed

lemma sample_cents_sum:
  "f64_sum [5189760853800387 / 2199023255552, 1286796940893225 / 549755813888] = 1292118577171661 / 274877906944"
proof -
  have "f64_sum [5189760853800387 / 2199023255552, 1286796940893225 / 549755813888] =
          f64_add (f64_add 0 (5189760853800387 / 2199023255552))
            (1286796940893225 / 549755813888)"
    by (simp only: f64_sum_def foldl.simps)
  then show ?thesis by (simp only: sum_first sum_second)
qed

lemma sample_cents_total:
  "total_potential_annual_savings (optimize_savings sample_cents 5000) =
     Some (5168474308686643 / 1099511627776)"
proof -
  have ne: "sample_cents \<noteq> []" by (simp add: sample_cents_def)
  have "total_potential_annual_savings (optimize_savings sample_cents 5000) =
          Some (round_f64 (f64_sum (map potential_savings
                  (optimizations (optimize_savings sample_cents 5000)))) 2)"
    using ne by (simp only: optimize_savings_def Let_def if_False savings_result.select_convs)
  then show ?thesis by (simp only: sample_cents_savings sample_cents_sum sum_rounded)
qed

text \<open>
  C6 (as stated, refuted). For the empty transaction list the result has no
  \<open>total_potential_annual_savings\<close>. For two categories of 1311.13 and 1300.37 with
  the limit 5000 the listed \<open>potential_savings\<close> are 2360.03 and 2340.67, whose sum,
  exact or as Python adds them (4700.700000000001), is not the returned total 4700.7:
  the total is that sum rounded to two places.
\<close>

theorem total_is_not_the_sum:
  "total_potential_annual_savings (optimize_savings [] 5000) = None
   \<and> map potential_savings (optimizations (optimize_savings sample_cents 5000)) =
       [5189760853800387 / 2199023255552, 1286796940893225 / 549755813888]
   \<and> total_potential_annual_savings (optimize_savings sample_cents 5000) \<noteq>
       Some (f64_sum (map potential_savings (optimizations (optimize_savings sample_cents 5000))))
   \<and> total_potential_annual_savings (optimize_savings sample_cents 5000) \<noteq>
       Some (sum_list (map potential_savings (optimizations (optimize_savings sample_cents 5000))))"
proof -
  have a: "total_potential_annual_savings (optimize_savings [] 5000) = None"
    by (simp add: optimize_savings_def)
  have b: "total_potential_annual_savings (optimize_savings sample_cents 5000) \<noteq>
             Some (f64_sum (map potential_savings
                     (optimizations (optimize_savings sample_cents 5000))))"
    unfolding sample_cents_savings sample_cents_sum sample_cents_total by simp
  have c: "total_potential_annual_savings (optimize_savings sample_cents 5000) \<noteq>
             Some (sum_list (map potential_savings
                     (optimizations (optimize_savings sample_cents 5000))))"
    unfolding sample_cents_savings sample_cents_total by simp
  from a b c sample_cents_savings show ?thesis by blast
qed

text \<open>
  C6 (amended). The optimizations returned by \<open>optimize_savings\<close> are in descending
  order of \<open>current_spend\<close>. For a non-empty transaction list
  \<open>total_potential_annual_savings\<close> is the sum of the \<open>potential_savings\<close> of the
  listed entries, as Python adds them, rounded to two decimal places; for the empty
  list the result has no total.
\<close>

theorem optimizations_sorted_and_total:
  "sorted_wrt (\<lambda>a b. b \<le> a) (map current_spend (optimizations (optimize_savings transactions budget_limit)))
   \<and> (transactions \<noteq> [] \<longrightarrow>
        total_potential_annual_savings (optimize_savings transactions budget_limit) =
          Some (round_f64 (f64_sum (map potential_savings
                  (optimizations (optimize_savings transactions budget_limit)))) 2))
   \<and> (transactions = [] \<longrightarrow>
        total_potential_annual_savings (optimize_savings transactions budget_limit) = None)"
proof (cases "transactions = []")
  case True
  then show ?thesis by (simp add: optimize_savings_def)
next
  case False
  let ?opts = "map make_optimization
                 (sort_key (\<lambda>x. - snd x)
                    (filter (\<lambda>(cat, amt). amt > f64_mul budget_limit literal_0_25)
                       (category_totals transactions)))"
  have o: "optimizations (optimize_savings transactions budget_limit) = ?opts"
    using False by (simp only: optimize_savings_def Let_def if_False savings_result.select_convs)
  have t: "total_potential_annual_savings (optimize_savings transactions budget_limit) =
             Some (round_f64 (f64_sum (map potential_savings ?opts)) 2)"
    using False by (simp only: optimize_savings_def Let_def if_False savings_result.select_convs)
  show ?thesis
    unfolding o t using False sorted_desc_current_spend by simp
qed

text \<open>The arithmetic of the optimizer on the sample spending with the limit 5000.\<close>

lemma total_185: "f64_add 0 185 = 185"
  unfolding f64_add_def
  by (subst f64_round_up [where n = 7]) (simp_all add: round_half_even_def Let_def)

lemma total_200: "f64_add 0 200 = 200"
  unfolding f64_add_def
  by (subst f64_round_up [where n = 7]) (simp_all add: round_half_even_def Let_def)

lemma total_1400: "f64_add 200 1200 = 1400"
  unfolding f64_add_def
  by (subst f64_round_up [where n = 10]) (simp_all add: round_half_even_def Let_def)

lemma total_2000: "f64_add 0 2000 = 2000"
  unfolding f64_add_def
  by (subst f64_round_up [where n = 10]) (simp_all add: round_half_even_def Let_def)

lemma reduction_1400: "f64_mul 1400 (5404319552844595 / 36028797018963968) = 210"
  unfolding f64_mul_def
  by (subst f64_round_up [where n = 7]) (simp_all add: round_half_even_def Let_def)

lemma annual_1400: "f64_mul 210 12 = 2520"
  unfolding f64_mul_def
  by (subst f64_round_up [where n = 11]) (simp_all add: round_half_even_def Let_def)

lemma savings_1400: "round_f64 2520 2 = 2520"
  unfolding round_f64_def py_round_def
  by (subst f64_round_up [where n = 11]) (simp_all add: round_half_even_def Let_def)

lemma spend_1400: "round_f64 1400 2 = 1400"
  unfolding round_f64_def py_round_def
  by (subst f64_round_up [where n = 10]) (simp_all add: round_half_even_def Let_def)

lemma reduction_2000: "f64_mul 2000 (5404319552844595 / 36028797018963968) = 300"
  unfolding f64_mul_def
  by (subst f64_round_up [where n = 8]) (simp_all add: round_half_even_def Let_def)

lemma annual_2000: "f64_mul 300 12 = 3600"
  unfolding f64_mul_def
  by (subst f64_round_up [where n = 11]) (simp_all add: round_half_even_def Let_def)

lemma savings_2000: "round_f64 3600 2 = 3600"
  unfolding round_f64_def py_round_def
  by (subst f64_round_up [where n = 11]) (simp_all add: round_half_even_def Let_def)

lemma spend_2000: "round_f64 2000 2 = 2000"
  unfolding round_f64_def py_round_def
  by (subst f64_round_up [where n = 10]) (simp_all add: round_half_even_def Let_def)

lemma sum_3600: "f64_add 0 3600 = 3600"
  unfolding f64_add_def
  by (subst f64_round_up [where n = 11]) (simp_all add: round_half_even_def Let_def)

lemma sum_6120: "f64_add 3600 2520 = 6120"
  unfolding f64_add_def
  by (subst f64_round_up [where n = 12]) (simp_all add: round_half_even_def Let_def)

lemma sum_6120_rounded: "round_f64 6120 2 = 6120"
  unfolding round_f64_def py_round_def
  by (subst f64_round_up [where n = 12]) (simp_all add: round_half_even_def Let_def)

lemma sample_spending_totals:
  "category_totals sample_spending =
     [(''groceries'', 185), (''entertainment'', 1400), (''rent'', 2000)]"
  by (simp add: category_totals_def sample_spending_def spend_def get_category_def
        get_amount_def total_185 total_200 total_1400 total_2000)

lemma sample_spending_optimizations:
  "optimizations (optimize_savings sample_spending 5000) =
     map make_optimization [(''rent'', 2000), (''entertainment'', 1400)]"
proof -
  have ne: "sample_spending \<noteq> []" by (simp add: sample_spending_def)
  then show ?thesis
    by (simp add: optimize_savings_def Let_def sample_spending_totals
          literal_0_25_value quarter_of_5000)
qed

theorem optimizations_sorted_and_total_witness:
  "map current_spend (optimizations (optimize_savings sample_spending 5000)) = [2000, 1400]
   \<and> sorted_wrt (\<lambda>a b. b \<le> a)
         (map current_spend (optimizations (optimize_savings sample_spending 5000)))
   \<and> map potential_savings (optimizations (optimize_savings sample_spending 5000))
       = [3600, 2520]
   \<and> total_potential_annual_savings (optimize_savings sample_spending 5000) =
         Some (round_f64 (f64_sum (map potential_savings
                 (optimizations (optimize_savings sample_spending 5000)))) 2)
   \<and> total_potential_annual_savings (optimize_savings sample_spending 5000) = Some 6120"
proof -
  have ne: "sample_spending \<noteq> []" by (simp add: sample_spending_def)
  from optimizations_sorted_and_total [of sample_spending 5000] ne
  have a: "sorted_wrt (\<lambda>a b. b \<le> a)
             (map current_spend (optimizations (optimize_savings sample_spending 5000)))"
    and b: "total_potential_annual_savings (optimize_savings sample_spending 5000) =
              Some (round_f64 (f64_sum (map potential_savings
                      (optimizations (optimize_savings sample_spending 5000)))) 2)"
    by blast+
  have c: "map current_spend (optimizations (optimize_savings sample_spending 5000))
             = [2000, 1400]"
    by (simp add: sample_spending_optimizations current_spend_make spend_2000 spend_1400)
  have d: "map potential_savings (optimizations (optimize_savings sample_spending 5000))
             = [3600, 2520]"
    by (simp add: sample_spending_optimizations potential_savings_make literal_0_15_value
          reduction_2000 annual_2000 savings_2000 reduction_1400 annual_1400 savings_1400)
  have "f64_sum [3600, 2520] = f64_add (f64_add 0 3600) 2520"
    by (simp only: f64_sum_def foldl.simps)
  then have s: "f64_sum [3600, 2520] = 6120" by (simp only: sum_3600 sum_6120)
  have e: "total_potential_annual_savings (optimize_savings sample_spending 5000) = Some 6120"
    using b by (simp only: d s sum_6120_rounded)
  from a b c d e show ?thesis by blast
qed

section \<open>Properties of the grouping by category\<close>











section \<open>Properties of the windowed anomaly detector\<close>





















section \<open>Missing keys in the predictor module\<close>























end
